theory Spec2Isabelle
  imports Main "HOL-Library.Char_ord" "HOL-Library.List_Lexorder"
begin

section \<open>JSON documents as encoding/json sees them\<close>

text \<open>
  The library of the language (encoding/json, net/url, fmt) is not part of the repository.
  Its scanner is not modelled: a byte slice handed to \<open>json.Unmarshal\<close> is represented by
  what the scanner makes of it. \<open>Empty\<close> is the slice of length zero (a nil
  \<open>json.RawMessage\<close>, which is what indexing a map at a missing key gives), \<open>Invalid msg\<close>
  is a non-empty slice that is not a JSON text (\<open>msg\<close> is the scanner's complaint) and
  \<open>Doc j\<close> is a slice spelling the JSON value \<open>j\<close>. A number keeps its literal, a string its
  decoded bytes, an object its members in the order written (duplicates included).
\<close>

datatype json =
    JNull
  | JBool bool
  | JNumber string
  | JString string
  | JArray "json list"
  | JObject "(string \<times> json) list"

datatype raw = Empty | Invalid string | Doc json

section \<open>The data model of message.go\<close>

record Message =
  Stream :: string
  Topic :: string
  Emails :: "string list"
  Content :: string

record User =
  Domain :: string
  Email :: string
  FullName :: string
  ID :: int
  IsMirrorDummy :: bool
  ShortName :: string

record DisplayRecipient =
  Users :: "User list option"
  Topic :: string

record EventMessage =
  AvatarURL :: string
  Client :: string
  Content :: string
  ContentType :: string
  DisplayRecipient :: DisplayRecipient
  GravatarHash :: string
  ID :: int
  RecipientID :: int
  SenderDomain :: string
  SenderEmail :: string
  SenderFullName :: string
  SenderID :: int
  SenderShortName :: string
  Subject :: string
  SubjectLinks :: "json list"
  Timestamp :: int
  Type :: string

text \<open>
  Slices are lists; the nil slice and the empty slice are the same list, which is all
  \<open>len\<close> and \<open>range\<close> can tell. The exception is \<open>Users\<close>, where it matters whether the
  decoder has put a slice there at all: it is an optional list, \<open>None\<close> for nil, and
  \<open>elems\<close> gives what \<open>range\<close> runs over. \<open>int\<close> is the 64-bit integer of the usual
  platforms: the decoder checks the range, and no arithmetic is done on these fields
  afterwards.

  The values of the interface \<open>error\<close> that occur: \<open>New s\<close> is \<open>errors.New(s)\<close>,
  \<open>Errorf f args\<close> is \<open>fmt.Errorf(f, args...)\<close> (kept unformatted, so that the event it prints
  stays visible), and the two errors of encoding/json, of which \<open>UnmarshalTypeError\<close> keeps
  its fields \<open>Value\<close> and \<open>Type\<close>.
\<close>

definition elems :: "'a list option \<Rightarrow> 'a list" where
  "elems slice = (case slice of None \<Rightarrow> [] | Some xs \<Rightarrow> xs)"

datatype error =
    New string
  | Errorf string "EventMessage list"
  | SyntaxError string
  | UnmarshalTypeError string string

section \<open>url.Values\<close>

text \<open>
  \<open>url.Values\<close> is a \<open>map[string][]string\<close>: here an association list with distinct keys.
  \<open>Set\<close> replaces whatever the key held by the one value; \<open>Encode\<close> writes the keys in
  sorted order, each value as \<open>key=value\<close> with both sides escaped by \<open>QueryEscape\<close>.
\<close>

type_synonym Values = "(string \<times> string list) list"

fun Set :: "string \<Rightarrow> string \<Rightarrow> Values \<Rightarrow> Values" where
  "Set key v [] = [(key, [v])]"
| "Set key v ((k, vs) # rest) = (if k = key then (k, [v]) # rest else (k, vs) # Set key v rest)"

definition Get :: "Values \<Rightarrow> string \<Rightarrow> string option" where
  "Get values key = (case map_of values key of None \<Rightarrow> None | Some [] \<Rightarrow> None | Some (v # _) \<Rightarrow> Some v)"

definition upperhex :: "nat \<Rightarrow> char" where
  "upperhex n = ''0123456789ABCDEF'' ! n"

definition unreserved :: "char \<Rightarrow> bool" where
  "unreserved c \<longleftrightarrow>
     (CHR ''a'' \<le> c \<and> c \<le> CHR ''z'') \<or> (CHR ''A'' \<le> c \<and> c \<le> CHR ''Z'') \<or>
     (CHR ''0'' \<le> c \<and> c \<le> CHR ''9'') \<or> c \<in> set ''-_.~''"

definition escapeByte :: "char \<Rightarrow> string" where
  "escapeByte c =
     (if unreserved c then [c]
      else if c = CHR '' '' then ''+''
      else [CHR ''%'', upperhex (of_char c div 16), upperhex (of_char c mod 16)])"

definition QueryEscape :: "string \<Rightarrow> string" where
  "QueryEscape s = concat (map escapeByte s)"

fun joinAmp :: "string list \<Rightarrow> string" where
  "joinAmp [] = []"
| "joinAmp [p] = p"
| "joinAmp (p # ps) = p @ ''&'' @ joinAmp ps"

definition Encode :: "Values \<Rightarrow> string" where
  "Encode values =
     joinAmp (concat (map (\<lambda>k. map (\<lambda>v. QueryEscape k @ ''='' @ QueryEscape v)
                                   (case map_of values k of None \<Rightarrow> [] | Some vs \<Rightarrow> vs))
                          (sort (map fst values))))"

section \<open>The bot and its transport\<close>

text \<open>
  \<open>Bot\<close> and its method \<open>constructRequest\<close> live in bot.go, which is not among the sources;
  the test file shows the fields. The request and response types of net/http stay type
  variables, the transport's \<open>Do\<close> is the field \<open>client\<close>, and \<open>constructRequest\<close> is
  carried as a field as well, so that every theorem holds for every implementation of the
  two. A call of \<open>Do\<close> is an effect: the operations thread the list of requests handed to
  the transport so far, and \<open>Do\<close> appends to it. What \<open>Do\<close> returns is the pair of results
  \<open>(*http.Response, error)\<close>, passed on as it is.
\<close>

type_synonym 'resp reply = "'resp option \<times> error option"

record ('req, 'resp) Bot =
  Email :: string
  APIKey :: string
  Streams :: "string list"
  client :: "'req \<Rightarrow> 'resp reply"
  constructRequest :: "string \<Rightarrow> string \<Rightarrow> string \<Rightarrow> error + 'req"

definition Do :: "('req, 'resp) Bot \<Rightarrow> 'req \<Rightarrow> 'req list \<Rightarrow> 'resp reply \<times> 'req list" where
  "Do b req sent = (client b req, sent @ [req])"

definition fail :: "error \<Rightarrow> 'req list \<Rightarrow> 'resp reply \<times> 'req list" where
  "fail err sent = ((None, Some err), sent)"

section \<open>Request construction\<close>

text \<open>
  The loop of \<open>constructMessageRequest\<close> over \<open>m.Emails\<close>, with its index \<open>i\<close> and the
  string \<open>to\<close> it appends to.
\<close>

fun appendEmails :: "int \<Rightarrow> int \<Rightarrow> string list \<Rightarrow> string \<Rightarrow> string" where
  "appendEmails le i [] to = to"
| "appendEmails le i (e # es) to =
     appendEmails le (i + 1) es (if i \<noteq> le - 1 then (to @ e) @ '', '' else to @ e)"

text \<open>
  \<open>messageValues\<close> is the body of \<open>constructMessageRequest\<close> down to the last \<open>values.Set\<close>:
  the form fields, before they are encoded.
\<close>

definition messageValues :: "Message \<Rightarrow> Values" where
  "messageValues m =
     (let to = Message.Stream m;
          mtype = ''stream'';
          le = int (length (Emails m));
          mtype = (if le \<noteq> 0 then ''private'' else mtype);
          to = (if le = 1 then hd (Emails m) else to);
          to = (if le > 1 then appendEmails le 0 (Emails m) to else to);
          values = [];
          values = Set ''type'' mtype values;
          values = Set ''to'' to values;
          values = Set ''content'' (Message.Content m) values;
          values = (if mtype = ''stream'' then Set ''subject'' (Message.Topic m) values else values)
      in values)"

definition constructMessageRequest :: "('req, 'resp) Bot \<Rightarrow> Message \<Rightarrow> error + 'req" where
  "constructMessageRequest b m = constructRequest b ''POST'' ''messages'' (Encode (messageValues m))"

section \<open>Sending\<close>

definition PrivateMessage :: "('req, 'resp) Bot \<Rightarrow> Message \<Rightarrow> 'req list \<Rightarrow> 'resp reply \<times> 'req list" where
  "PrivateMessage b m sent =
     (if length (Emails m) = 0 then fail (New ''there must be at least one recipient'') sent
      else case constructMessageRequest b m of
             Inl err \<Rightarrow> fail err sent
           | Inr req \<Rightarrow> Do b req sent)"

definition Message :: "('req, 'resp) Bot \<Rightarrow> Message \<Rightarrow> 'req list \<Rightarrow> 'resp reply \<times> 'req list" where
  "Message b m sent =
     (if Message.Content m = [] then fail (New ''content cannot be empty'') sent
      else if length (Emails m) \<noteq> 0 then PrivateMessage b m sent
      else if Message.Stream m = [] then fail (New ''stream cannot be empty'') sent
      else if Message.Topic m = [] then fail (New ''topic cannot be empty'') sent
      else case constructMessageRequest b m of
             Inl err \<Rightarrow> fail err sent
           | Inr req \<Rightarrow> Do b req sent)"

section \<open>Responding to an event\<close>

text \<open>The loop of \<open>privateResponseList\<close> over the users, appending to \<open>out\<close>.\<close>

fun otherEmails :: "string \<Rightarrow> User list \<Rightarrow> string list \<Rightarrow> string list" where
  "otherEmails botEmail [] out = out"
| "otherEmails botEmail (u # us) out =
     otherEmails botEmail us (if User.Email u \<noteq> botEmail then out @ [User.Email u] else out)"

definition privateResponseList :: "('req, 'resp) Bot \<Rightarrow> EventMessage \<Rightarrow> error + string list" where
  "privateResponseList b e =
     (let out = otherEmails (Bot.Email b) (elems (Users (DisplayRecipient e))) []
      in if length out = 0
         then Inl (Errorf ''EventMessage had no Users within the DisplayRecipient'' [])
         else Inr out)"

definition Respond :: "('req, 'resp) Bot \<Rightarrow> EventMessage \<Rightarrow> string \<Rightarrow> 'req list \<Rightarrow> 'resp reply \<times> 'req list" where
  "Respond b e response sent =
     (if response = [] then fail (New ''Message response cannot be blank'') sent
      else let m = \<lparr>Message.Stream = DisplayRecipient.Topic (DisplayRecipient e),
                     Message.Topic = Subject e,
                     Emails = [],
                     Message.Content = response\<rparr>
           in if Message.Topic m \<noteq> [] then Message b m sent
              else if Message.Stream m = [] then
                     (case privateResponseList b e of
                        Inl err \<Rightarrow> fail err sent
                      | Inr emails \<Rightarrow> Message b (m\<lparr>Emails := emails\<rparr>) sent)
              else fail (Errorf (''EventMessage is not understood: %v'' @ [CHR 0x0A]) [e]) sent)"

section \<open>json.Unmarshal at the types message.go decodes into\<close>

text \<open>
  The decoder stores a JSON value into a target that already holds a value. \<open>null\<close> leaves
  a string, a number, a boolean or a struct as it is, and makes a slice or a map nil. A
  value of the wrong kind leaves the target as it is and is remembered as an
  \<open>UnmarshalTypeError\<close>; decoding goes on, and the first error remembered is returned at
  the end. The state of a store function is the target's value and the error remembered
  so far.
\<close>

definition describe :: "json \<Rightarrow> string" where
  "describe j =
     (case j of JNull \<Rightarrow> ''null'' | JBool _ \<Rightarrow> ''bool'' | JNumber _ \<Rightarrow> ''number''
      | JString _ \<Rightarrow> ''string'' | JArray _ \<Rightarrow> ''array'' | JObject _ \<Rightarrow> ''object'')"

definition saveError :: "error option \<Rightarrow> error \<Rightarrow> error option" where
  "saveError saved err = (case saved of None \<Rightarrow> Some err | Some first \<Rightarrow> Some first)"

definition storeString :: "json \<Rightarrow> string \<times> error option \<Rightarrow> string \<times> error option" where
  "storeString j st =
     (case st of (cur, saved) \<Rightarrow>
        (case j of
           JNull \<Rightarrow> (cur, saved)
         | JString s \<Rightarrow> (s, saved)
         | _ \<Rightarrow> (cur, saveError saved (UnmarshalTypeError (describe j) ''string''))))"

definition storeBool :: "json \<Rightarrow> bool \<times> error option \<Rightarrow> bool \<times> error option" where
  "storeBool j st =
     (case st of (cur, saved) \<Rightarrow>
        (case j of
           JNull \<Rightarrow> (cur, saved)
         | JBool v \<Rightarrow> (v, saved)
         | _ \<Rightarrow> (cur, saveError saved (UnmarshalTypeError (describe j) ''bool''))))"

text \<open>
  \<open>strconv.ParseInt(s, 10, 64)\<close>: an optional sign, then decimal digits, at least one, and
  a value that fits 64 bits.
\<close>

fun digits :: "string \<Rightarrow> int \<Rightarrow> int option" where
  "digits [] acc = Some acc"
| "digits (c # cs) acc =
     (if CHR ''0'' \<le> c \<and> c \<le> CHR ''9''
      then digits cs (acc * 10 + (of_char c - of_char (CHR ''0'')))
      else None)"

definition ParseInt :: "string \<Rightarrow> int option" where
  "ParseInt s =
     (let neg = (s \<noteq> [] \<and> hd s = CHR ''-'');
          body = (if s \<noteq> [] \<and> (hd s = CHR ''-'' \<or> hd s = CHR ''+'') then tl s else s)
      in if body = [] then None
         else case digits body 0 of
                None \<Rightarrow> None
              | Some n \<Rightarrow>
                  (let v = (if neg then - n else n)
                   in if - (2 ^ 63) \<le> v \<and> v < 2 ^ 63 then Some v else None))"

definition storeInt :: "json \<Rightarrow> int \<times> error option \<Rightarrow> int \<times> error option" where
  "storeInt j st =
     (case st of (cur, saved) \<Rightarrow>
        (case j of
           JNull \<Rightarrow> (cur, saved)
         | JNumber lit \<Rightarrow>
             (case ParseInt lit of
                Some n \<Rightarrow> (n, saved)
              | None \<Rightarrow> (cur, saveError saved (UnmarshalTypeError (''number '' @ lit) ''int'')))
         | _ \<Rightarrow> (cur, saveError saved (UnmarshalTypeError (describe j) ''int''))))"

text \<open>
  A \<open>[]interface{}\<close> takes every array; its elements are kept as the JSON values they
  were decoded from.
\<close>

definition storeInterfaces :: "json \<Rightarrow> json list \<times> error option \<Rightarrow> json list \<times> error option" where
  "storeInterfaces j st =
     (case st of (cur, saved) \<Rightarrow>
        (case j of
           JNull \<Rightarrow> ([], saved)
         | JArray js \<Rightarrow> (js, saved)
         | _ \<Rightarrow> (cur, saveError saved (UnmarshalTypeError (describe j) ''[]interface {}''))))"

text \<open>
  A member of an object goes to the struct field whose name (its \<open>json\<close> tag) equals the
  key, or else equals it up to the case of letters; a key that names no field is skipped.
  The tags of \<open>User\<close> and of \<open>EventMessage\<close> are in lower case and stay distinct when
  folded, so the field is the one whose tag is the key in lower case. Only ASCII letters
  are folded here.
\<close>

definition lower :: "char \<Rightarrow> char" where
  "lower c = (if CHR ''A'' \<le> c \<and> c \<le> CHR ''Z'' then char_of (of_char c + (32::nat)) else c)"

definition zeroUser :: User where
  "zeroUser = \<lparr>User.Domain = [], User.Email = [], FullName = [], User.ID = 0,
               IsMirrorDummy = False, ShortName = []\<rparr>"

definition storeUserField :: "string \<times> json \<Rightarrow> User \<times> error option \<Rightarrow> User \<times> error option" where
  "storeUserField member st =
     (case (member, st) of ((key, j), (u, saved)) \<Rightarrow>
        (let name = map lower key in
         if name = ''domain'' then
           (case storeString j (User.Domain u, saved) of (v, saved) \<Rightarrow> (u\<lparr>User.Domain := v\<rparr>, saved))
         else if name = ''email'' then
           (case storeString j (User.Email u, saved) of (v, saved) \<Rightarrow> (u\<lparr>User.Email := v\<rparr>, saved))
         else if name = ''full_name'' then
           (case storeString j (FullName u, saved) of (v, saved) \<Rightarrow> (u\<lparr>FullName := v\<rparr>, saved))
         else if name = ''id'' then
           (case storeInt j (User.ID u, saved) of (v, saved) \<Rightarrow> (u\<lparr>User.ID := v\<rparr>, saved))
         else if name = ''is_mirror_dummy'' then
           (case storeBool j (IsMirrorDummy u, saved) of (v, saved) \<Rightarrow> (u\<lparr>IsMirrorDummy := v\<rparr>, saved))
         else if name = ''short_name'' then
           (case storeString j (ShortName u, saved) of (v, saved) \<Rightarrow> (u\<lparr>ShortName := v\<rparr>, saved))
         else (u, saved)))"

definition storeUser :: "json \<Rightarrow> User \<times> error option \<Rightarrow> User \<times> error option" where
  "storeUser j st =
     (case st of (u, saved) \<Rightarrow>
        (case j of
           JNull \<Rightarrow> (u, saved)
         | JObject members \<Rightarrow> fold storeUserField members (u, saved)
         | _ \<Rightarrow> (u, saveError saved (UnmarshalTypeError (describe j) ''gozulipbot.User''))))"

text \<open>
  An array stored into a slice: element \<open>i\<close> of the array is stored into element \<open>i\<close> of
  the slice where the slice has one, into a zero value beyond its length, and the slice
  ends up as long as the array; for the empty array that is an empty slice, not nil.
\<close>

fun storeUserElems :: "json list \<Rightarrow> User list \<Rightarrow> error option \<Rightarrow> User list \<times> error option" where
  "storeUserElems [] old saved = ([], saved)"
| "storeUserElems (j # js) old saved =
     (case storeUser j (case old of [] \<Rightarrow> zeroUser | u # _ \<Rightarrow> u, saved) of
        (u, saved) \<Rightarrow>
          (case storeUserElems js (tl old) saved of (us, saved) \<Rightarrow> (u # us, saved)))"

definition storeUsers ::
  "json \<Rightarrow> User list option \<times> error option \<Rightarrow> User list option \<times> error option" where
  "storeUsers j st =
     (case st of (cur, saved) \<Rightarrow>
        (case j of
           JNull \<Rightarrow> (None, saved)
         | JArray js \<Rightarrow> (case storeUserElems js (elems cur) saved of (us, saved) \<Rightarrow> (Some us, saved))
         | _ \<Rightarrow> (cur, saveError saved (UnmarshalTypeError (describe j) ''[]gozulipbot.User''))))"

text \<open>
  \<open>json.Unmarshal(b, &v)\<close> checks the syntax of \<open>b\<close> before it touches \<open>v\<close>. None of the
  callers in message.go reads the target after an error, so the result is the error or the
  target's new value.
\<close>

definition checkValid :: "raw \<Rightarrow> error + json" where
  "checkValid b =
     (case b of
        Empty \<Rightarrow> Inl (SyntaxError ''unexpected end of JSON input'')
      | Invalid msg \<Rightarrow> Inl (SyntaxError msg)
      | Doc j \<Rightarrow> Inr j)"

definition finish :: "'a \<times> error option \<Rightarrow> error + 'a" where
  "finish st = (case st of (v, None) \<Rightarrow> Inr v | (v, Some err) \<Rightarrow> Inl err)"

definition Unmarshal_string :: "raw \<Rightarrow> string \<Rightarrow> error + string" where
  "Unmarshal_string b v =
     (case checkValid b of Inl err \<Rightarrow> Inl err | Inr j \<Rightarrow> finish (storeString j (v, None)))"

definition Unmarshal_Users :: "raw \<Rightarrow> User list option \<Rightarrow> error + User list option" where
  "Unmarshal_Users b v =
     (case checkValid b of Inl err \<Rightarrow> Inl err | Inr j \<Rightarrow> finish (storeUsers j (v, None)))"

section \<open>The decoder of DisplayRecipient\<close>

text \<open>
  The method works on the receiver \<open>d\<close> in place and returns \<open>err\<close>: the result is the
  receiver afterwards and the error, \<open>None\<close> for nil.
\<close>

definition UnmarshalJSON :: "DisplayRecipient \<Rightarrow> raw \<Rightarrow> DisplayRecipient \<times> error option" where
  "UnmarshalJSON d b =
     (let topic = []; users = Some [zeroUser] in
      case Unmarshal_string b topic of
        Inr topic \<Rightarrow> (d\<lparr>DisplayRecipient.Topic := topic\<rparr>, None)
      | Inl err \<Rightarrow>
          (case Unmarshal_Users b users of
             Inr users \<Rightarrow> (d\<lparr>Users := users\<rparr>, None)
           | Inl err \<Rightarrow> (d, Some err)))"

section \<open>Decoding an EventMessage\<close>

definition zeroDisplayRecipient :: DisplayRecipient where
  "zeroDisplayRecipient = \<lparr>Users = None, DisplayRecipient.Topic = []\<rparr>"

definition zeroEventMessage :: EventMessage where
  "zeroEventMessage =
     \<lparr>AvatarURL = [], Client = [], EventMessage.Content = [], ContentType = [],
      DisplayRecipient = zeroDisplayRecipient, GravatarHash = [], EventMessage.ID = 0,
      RecipientID = 0, SenderDomain = [], SenderEmail = [], SenderFullName = [], SenderID = 0,
      SenderShortName = [], Subject = [], SubjectLinks = [], Timestamp = 0, Type = []\<rparr>"

text \<open>
  The field \<open>display_recipient\<close> has a decoder of its own: the library hands it the bytes
  of the member's value, whatever its kind, and an error it returns ends the decoding at
  once (\<open>Inl\<close>), ahead of any error remembered.
\<close>

definition storeEventField ::
  "string \<times> json \<Rightarrow> EventMessage \<times> error option \<Rightarrow> error + EventMessage \<times> error option" where
  "storeEventField member st =
     (case (member, st) of ((key, j), (msg, saved)) \<Rightarrow>
        (let name = map lower key in
         if name = ''avatar_url'' then
           (case storeString j (AvatarURL msg, saved) of (v, saved) \<Rightarrow> Inr (msg\<lparr>AvatarURL := v\<rparr>, saved))
         else if name = ''client'' then
           (case storeString j (Client msg, saved) of (v, saved) \<Rightarrow> Inr (msg\<lparr>Client := v\<rparr>, saved))
         else if name = ''content'' then
           (case storeString j (EventMessage.Content msg, saved) of
              (v, saved) \<Rightarrow> Inr (msg\<lparr>EventMessage.Content := v\<rparr>, saved))
         else if name = ''content_type'' then
           (case storeString j (ContentType msg, saved) of (v, saved) \<Rightarrow> Inr (msg\<lparr>ContentType := v\<rparr>, saved))
         else if name = ''display_recipient'' then
           (case UnmarshalJSON (DisplayRecipient msg) (Doc j) of
              (d, None) \<Rightarrow> Inr (msg\<lparr>DisplayRecipient := d\<rparr>, saved)
            | (d, Some err) \<Rightarrow> Inl err)
         else if name = ''gravatar_hash'' then
           (case storeString j (GravatarHash msg, saved) of (v, saved) \<Rightarrow> Inr (msg\<lparr>GravatarHash := v\<rparr>, saved))
         else if name = ''id'' then
           (case storeInt j (EventMessage.ID msg, saved) of (v, saved) \<Rightarrow> Inr (msg\<lparr>EventMessage.ID := v\<rparr>, saved))
         else if name = ''recipient_id'' then
           (case storeInt j (RecipientID msg, saved) of (v, saved) \<Rightarrow> Inr (msg\<lparr>RecipientID := v\<rparr>, saved))
         else if name = ''sender_domain'' then
           (case storeString j (SenderDomain msg, saved) of (v, saved) \<Rightarrow> Inr (msg\<lparr>SenderDomain := v\<rparr>, saved))
         else if name = ''sender_email'' then
           (case storeString j (SenderEmail msg, saved) of (v, saved) \<Rightarrow> Inr (msg\<lparr>SenderEmail := v\<rparr>, saved))
         else if name = ''sender_full_name'' then
           (case storeString j (SenderFullName msg, saved) of (v, saved) \<Rightarrow> Inr (msg\<lparr>SenderFullName := v\<rparr>, saved))
         else if name = ''sender_id'' then
           (case storeInt j (SenderID msg, saved) of (v, saved) \<Rightarrow> Inr (msg\<lparr>SenderID := v\<rparr>, saved))
         else if name = ''sender_short_name'' then
           (case storeString j (SenderShortName msg, saved) of (v, saved) \<Rightarrow> Inr (msg\<lparr>SenderShortName := v\<rparr>, saved))
         else if name = ''subject'' then
           (case storeString j (Subject msg, saved) of (v, saved) \<Rightarrow> Inr (msg\<lparr>Subject := v\<rparr>, saved))
         else if name = ''subject_links'' then
           (case storeInterfaces j (SubjectLinks msg, saved) of (v, saved) \<Rightarrow> Inr (msg\<lparr>SubjectLinks := v\<rparr>, saved))
         else if name = ''timestamp'' then
           (case storeInt j (Timestamp msg, saved) of (v, saved) \<Rightarrow> Inr (msg\<lparr>Timestamp := v\<rparr>, saved))
         else if name = ''type'' then
           (case storeString j (Type msg, saved) of (v, saved) \<Rightarrow> Inr (msg\<lparr>Type := v\<rparr>, saved))
         else Inr (msg, saved)))"

fun storeEventMembers ::
  "(string \<times> json) list \<Rightarrow> EventMessage \<times> error option \<Rightarrow> error + EventMessage \<times> error option" where
  "storeEventMembers [] st = Inr st"
| "storeEventMembers (member # members) st =
     (case storeEventField member st of
        Inl err \<Rightarrow> Inl err
      | Inr st \<Rightarrow> storeEventMembers members st)"

definition storeEventMessage ::
  "json \<Rightarrow> EventMessage \<times> error option \<Rightarrow> error + EventMessage \<times> error option" where
  "storeEventMessage j st =
     (case st of (msg, saved) \<Rightarrow>
        (case j of
           JNull \<Rightarrow> Inr (msg, saved)
         | JObject members \<Rightarrow> storeEventMembers members (msg, saved)
         | _ \<Rightarrow> Inr (msg, saveError saved (UnmarshalTypeError (describe j) ''gozulipbot.EventMessage''))))"

definition Unmarshal_EventMessage :: "raw \<Rightarrow> EventMessage \<Rightarrow> error + EventMessage" where
  "Unmarshal_EventMessage b v =
     (case checkValid b of
        Inl err \<Rightarrow> Inl err
      | Inr j \<Rightarrow> (case storeEventMessage j (v, None) of Inl err \<Rightarrow> Inl err | Inr st \<Rightarrow> finish st))"

section \<open>Parsing a batch of events\<close>

text \<open>
  A \<open>map[string]json.RawMessage\<close> is a map from keys to the JSON values their bytes spell;
  indexing it at a key it lacks gives the nil \<open>RawMessage\<close>. Of two members with one key the
  later is kept. \<open>null\<close> makes the map nil, which indexes like the empty one.
\<close>

type_synonym RawMap = "string \<rightharpoonup> json"

definition index :: "RawMap \<Rightarrow> string \<Rightarrow> raw" where
  "index m key = (case m key of None \<Rightarrow> Empty | Some j \<Rightarrow> Doc j)"

definition storeRawMap :: "json \<Rightarrow> RawMap \<times> error option \<Rightarrow> RawMap \<times> error option" where
  "storeRawMap j st =
     (case st of (m, saved) \<Rightarrow>
        (case j of
           JNull \<Rightarrow> (Map.empty, saved)
         | JObject members \<Rightarrow> (fold (\<lambda>member m. m(fst member \<mapsto> snd member)) members m, saved)
         | _ \<Rightarrow> (m, saveError saved (UnmarshalTypeError (describe j) ''map[string]json.RawMessage''))))"

fun storeRawMapElems :: "json list \<Rightarrow> RawMap list \<Rightarrow> error option \<Rightarrow> RawMap list \<times> error option" where
  "storeRawMapElems [] old saved = ([], saved)"
| "storeRawMapElems (j # js) old saved =
     (case storeRawMap j (case old of [] \<Rightarrow> Map.empty | m # _ \<Rightarrow> m, saved) of
        (m, saved) \<Rightarrow>
          (case storeRawMapElems js (tl old) saved of (ms, saved) \<Rightarrow> (m # ms, saved)))"

definition storeRawMaps :: "json \<Rightarrow> RawMap list \<times> error option \<Rightarrow> RawMap list \<times> error option" where
  "storeRawMaps j st =
     (case st of (cur, saved) \<Rightarrow>
        (case j of
           JNull \<Rightarrow> ([], saved)
         | JArray js \<Rightarrow> storeRawMapElems js cur saved
         | _ \<Rightarrow> (cur, saveError saved (UnmarshalTypeError (describe j) ''[]map[string]json.RawMessage''))))"

definition Unmarshal_RawMap :: "raw \<Rightarrow> RawMap \<Rightarrow> error + RawMap" where
  "Unmarshal_RawMap b v =
     (case checkValid b of Inl err \<Rightarrow> Inl err | Inr j \<Rightarrow> finish (storeRawMap j (v, None)))"

definition Unmarshal_RawMaps :: "raw \<Rightarrow> RawMap list \<Rightarrow> error + RawMap list" where
  "Unmarshal_RawMaps b v =
     (case checkValid b of Inl err \<Rightarrow> Inl err | Inr j \<Rightarrow> finish (storeRawMaps j (v, None)))"

text \<open>The loop of \<open>ParseEventMessages\<close> over \<open>events\<close>, appending to \<open>messages\<close>.\<close>

fun decodeEvents :: "RawMap list \<Rightarrow> EventMessage list \<Rightarrow> error + EventMessage list" where
  "decodeEvents [] messages = Inr messages"
| "decodeEvents (event # events) messages =
     (case Unmarshal_EventMessage (index event ''message'') zeroEventMessage of
        Inl err \<Rightarrow> Inl err
      | Inr msg \<Rightarrow> decodeEvents events (messages @ [msg]))"

definition ParseEventMessages :: "raw \<Rightarrow> error + EventMessage list" where
  "ParseEventMessages rawEventResponse =
     (case Unmarshal_RawMap rawEventResponse Map.empty of
        Inl err \<Rightarrow> Inl err
      | Inr rawResponse \<Rightarrow>
          (case Unmarshal_RawMaps (index rawResponse ''events'') [] of
             Inl err \<Rightarrow> Inl err
           | Inr events \<Rightarrow> decodeEvents events []))"

section \<open>The words of the specification, and the bot of the tests\<close>

text \<open>
  "Their comma-space-joined concatenation in original order": the emails with \<open>'', ''\<close>
  between neighbours, written from the specification's sentence and not from the loop.
\<close>

fun commaSpaceJoined :: "string list \<Rightarrow> string" where
  "commaSpaceJoined [] = []"
| "commaSpaceJoined [e] = e"
| "commaSpaceJoined (e # es) = e @ '', '' @ commaSpaceJoined es"

text \<open>
  \<open>getTestBot\<close> of the test file: its transport answers every request with a nil
  response and a nil error. For \<open>constructRequest\<close>, which the tests take from bot.go, the
  request is the triple of the method, the endpoint and the body.
\<close>

definition getTestBot :: "(string \<times> string \<times> string, unit) Bot" where
  "getTestBot =
     \<lparr>Bot.Email = ''testbot@example.com'', APIKey = ''apikey'',
      Streams = [''stream a'', ''test bots''],
      client = (\<lambda>r. (None, None)),
      constructRequest = (\<lambda>method endpoint body. Inr (method, endpoint, body))\<rparr>"

text \<open>
  "Every user in the event's \<open>DisplayRecipient.Users\<close> whose email differs from the bot's own
  \<open>Email\<close>, in original order": the recipients of a private reply, in the specification's
  words.
\<close>

definition recipients :: "('req, 'resp) Bot \<Rightarrow> EventMessage \<Rightarrow> string list" where
  "recipients b e =
     map User.Email (filter (\<lambda>u. User.Email u \<noteq> Bot.Email b) (elems (Users (DisplayRecipient e))))"

text \<open>
  Four events: one from a stream, one from a private conversation of the bot with two
  others, one from a conversation in which the bot is alone, and one with a stream's name
  but no subject.
\<close>

definition streamEvent :: EventMessage where
  "streamEvent = zeroEventMessage\<lparr>Subject := ''t1'',
     DisplayRecipient := \<lparr>Users = None, DisplayRecipient.Topic = ''general''\<rparr>\<rparr>"

definition privateEvent :: EventMessage where
  "privateEvent = zeroEventMessage\<lparr>DisplayRecipient :=
     \<lparr>Users = Some [zeroUser\<lparr>User.Email := ''testbot@example.com''\<rparr>,
                    zeroUser\<lparr>User.Email := ''a@x.com''\<rparr>,
                    zeroUser\<lparr>User.Email := ''b@x.com''\<rparr>],
      DisplayRecipient.Topic = []\<rparr>\<rparr>"

definition lonelyEvent :: EventMessage where
  "lonelyEvent = zeroEventMessage\<lparr>DisplayRecipient :=
     \<lparr>Users = Some [zeroUser\<lparr>User.Email := ''testbot@example.com''\<rparr>],
      DisplayRecipient.Topic = []\<rparr>\<rparr>"

definition oddEvent :: EventMessage where
  "oddEvent = zeroEventMessage\<lparr>DisplayRecipient := \<lparr>Users = None, DisplayRecipient.Topic = ''general''\<rparr>\<rparr>"

text \<open>
  JSON values for the examples: a user record, the \<open>message\<close> of a stream event, a
  \<open>message\<close> whose \<open>id\<close> is a string, and a batch of three events with the bad one in the
  middle.
\<close>

definition oneUser :: json where
  "oneUser = JObject [(''email'', JString ''a@x.com''), (''id'', JNumber ''7'')]"

definition goodMessage :: json where
  "goodMessage = JObject [(''subject'', JString ''t1''), (''display_recipient'', JString ''general'')]"

definition badMessage :: json where
  "badMessage = JObject [(''id'', JString ''x'')]"

definition brokenBatch :: json where
  "brokenBatch =
     JObject [(''events'',
       JArray [JObject [(''message'', goodMessage)],
               JObject [(''message'', badMessage)],
               JObject [(''message'', goodMessage)]])]"

section \<open>Facts about the loops and the form fields\<close>

lemma appendEmails_join:
  "i + int (length es) = le \<Longrightarrow> es \<noteq> [] \<Longrightarrow> appendEmails le i es to = to @ commaSpaceJoined es"
proof (induction es arbitrary: i to)
  case Nil
  then show ?case by simp
next
  case (Cons e es)
  show ?case
  proof (cases es)
    case Nil
    with Cons.prems show ?thesis by simp
  next
    case (Cons e' es')
    have step: "appendEmails le (i + 1) es ((to @ e) @ '', '') = ((to @ e) @ '', '') @ commaSpaceJoined es"
      using Cons.IH [of "i + 1" "(to @ e) @ '', ''"] Cons.prems Cons by simp
    have "i \<noteq> le - 1" using Cons.prems Cons by simp
    then show ?thesis using step Cons by simp
  qed
qed

lemma otherEmails_filter:
  "otherEmails botEmail us out = out @ map User.Email (filter (\<lambda>u. User.Email u \<noteq> botEmail) us)"
  by (induction us arbitrary: out) simp_all

lemma Get_type: "Get (messageValues m) ''type'' = Some (if Emails m = [] then ''stream'' else ''private'')"
  by (simp add: messageValues_def Get_def Let_def)

lemma Get_content: "Get (messageValues m) ''content'' = Some (Message.Content m)"
  by (simp add: messageValues_def Get_def Let_def)

lemma Get_subject: "Get (messageValues m) ''subject'' = (if Emails m = [] then Some (Message.Topic m) else None)"
  by (simp add: messageValues_def Get_def Let_def)

lemma Get_to_none: "Emails m = [] \<Longrightarrow> Get (messageValues m) ''to'' = Some (Message.Stream m)"
  by (simp add: messageValues_def Get_def Let_def)

lemma Get_to_one: "Emails m = [e] \<Longrightarrow> Get (messageValues m) ''to'' = Some e"
  by (simp add: messageValues_def Get_def Let_def)

lemma Get_to_many:
  assumes "2 \<le> length (Emails m)"
  shows "Get (messageValues m) ''to'' = Some (Message.Stream m @ commaSpaceJoined (Emails m))"
proof -
  have ne: "Emails m \<noteq> []" using assms by auto
  have "appendEmails (int (length (Emails m))) 0 (Emails m) (Message.Stream m)
          = Message.Stream m @ commaSpaceJoined (Emails m)"
    using appendEmails_join [of 0 "Emails m" "int (length (Emails m))" "Message.Stream m"] ne by simp
  then show ?thesis using assms
    by (simp add: messageValues_def Get_def Let_def)
qed

lemma Get_to_private:
  assumes "Message.Stream m = []" "Emails m \<noteq> []"
  shows "Get (messageValues m) ''to'' = Some (commaSpaceJoined (Emails m))"
proof (cases "Emails m")
  case Nil
  with assms show ?thesis by simp
next
  case (Cons e es)
  show ?thesis
  proof (cases es)
    case Nil
    with Cons show ?thesis using Get_to_one [of m e] by simp
  next
    case (Cons e' es')
    with \<open>Emails m = e # es\<close> have "2 \<le> length (Emails m)" by simp
    then show ?thesis using Get_to_many [of m] assms by simp
  qed
qed

lemma privateResponseList_recipients:
  "privateResponseList b e =
     (if recipients b e = [] then Inl (Errorf ''EventMessage had no Users within the DisplayRecipient'' [])
      else Inr (recipients b e))"
  by (simp add: privateResponseList_def recipients_def otherEmails_filter Let_def)

lemma PrivateMessage_unfold:
  "Emails m \<noteq> [] \<Longrightarrow>
     PrivateMessage b m sent =
       (case constructRequest b ''POST'' ''messages'' (Encode (messageValues m)) of
          Inl err \<Rightarrow> ((None, Some err), sent)
        | Inr req \<Rightarrow> (client b req, sent @ [req]))"
  by (simp add: PrivateMessage_def constructMessageRequest_def fail_def Do_def split: sum.split)

section \<open>Facts about the decoders\<close>

lemma Unmarshal_string_Doc:
  "Unmarshal_string (Doc j) v =
     (case j of JNull \<Rightarrow> Inr v | JString s \<Rightarrow> Inr s
      | _ \<Rightarrow> Inl (UnmarshalTypeError (describe j) ''string''))"
  by (simp add: Unmarshal_string_def checkValid_def storeString_def finish_def saveError_def
      split: json.split)

lemma storeUserElems_clean:
  assumes "\<forall>u \<in> set old. u = zeroUser"
    and "\<forall>j \<in> set js. snd (storeUser j (zeroUser, None)) = None"
  shows "storeUserElems js old None = (map (\<lambda>j. fst (storeUser j (zeroUser, None))) js, None)"
  using assms
proof (induction js arbitrary: old)
  case Nil
  then show ?case by simp
next
  case (Cons j js)
  have cur: "(case old of [] \<Rightarrow> zeroUser | u # _ \<Rightarrow> u) = zeroUser"
    using Cons.prems(1) by (cases old) simp_all
  have tl: "\<forall>u \<in> set (tl old). u = zeroUser"
    using Cons.prems(1) by (cases old) simp_all
  obtain u where u: "storeUser j (zeroUser, None) = (u, None)"
    using Cons.prems(2) by (cases "storeUser j (zeroUser, None)") simp
  have rest: "storeUserElems js (tl old) None = (map (\<lambda>j. fst (storeUser j (zeroUser, None))) js, None)"
    using Cons.IH [OF tl] Cons.prems(2) by simp
  show ?case by (simp add: cur u rest)
qed

lemma UnmarshalJSON_string:
  "UnmarshalJSON d (Doc (JString s)) = (d\<lparr>DisplayRecipient.Topic := s\<rparr>, None)"
  by (simp add: UnmarshalJSON_def Unmarshal_string_Doc)

lemma UnmarshalJSON_array:
  assumes "\<forall>j \<in> set js. snd (storeUser j (zeroUser, None)) = None"
  shows "UnmarshalJSON d (Doc (JArray js))
           = (d\<lparr>Users := Some (map (\<lambda>j. fst (storeUser j (zeroUser, None))) js)\<rparr>, None)"
proof -
  have "storeUserElems js [zeroUser] None = (map (\<lambda>j. fst (storeUser j (zeroUser, None))) js, None)"
    using storeUserElems_clean [of "[zeroUser]" js] assms by simp
  then show ?thesis
    by (simp add: UnmarshalJSON_def Unmarshal_string_Doc Unmarshal_Users_def checkValid_def
        storeUsers_def elems_def finish_def describe_def)
qed

lemma fold_members:
  "fold (\<lambda>member m. m(fst member \<mapsto> snd member)) members m = m ++ map_of (rev members)"
proof (induction members arbitrary: m)
  case Nil
  show ?case by simp
next
  case (Cons member members)
  let ?put = "\<lambda>member m. m(fst member \<mapsto> snd member)"
  have "fold ?put (member # members) m = fold ?put members (m(fst member \<mapsto> snd member))"
    by (simp only: fold_simps comp_apply)
  also have "\<dots> = (m(fst member \<mapsto> snd member)) ++ map_of (rev members)"
    by (rule Cons.IH)
  also have "\<dots> = m ++ map_of (rev (member # members))"
    by (auto simp: fun_eq_iff map_add_def split: option.splits)
  finally show ?case .
qed

lemma Unmarshal_RawMap_object:
  "Unmarshal_RawMap (Doc (JObject members)) Map.empty = Inr (map_of (rev members))"
  by (simp add: Unmarshal_RawMap_def checkValid_def storeRawMap_def finish_def fold_members)

lemma Unmarshal_RawMaps_Empty:
  "Unmarshal_RawMaps Empty v = Inl (SyntaxError ''unexpected end of JSON input'')"
  by (simp add: Unmarshal_RawMaps_def checkValid_def)

lemma Unmarshal_RawMaps_empty_array: "Unmarshal_RawMaps (Doc (JArray [])) [] = Inr []"
  by (simp add: Unmarshal_RawMaps_def checkValid_def storeRawMaps_def finish_def)

lemma decodeEvents_first_error:
  assumes "\<forall>ev \<in> set before. \<exists>msg. Unmarshal_EventMessage (index ev ''message'') zeroEventMessage = Inr msg"
    and "Unmarshal_EventMessage (index event ''message'') zeroEventMessage = Inl err"
  shows "decodeEvents (before @ event # after) messages = Inl err"
  using assms(1)
proof (induction before arbitrary: messages)
  case Nil
  show ?case using assms(2) by simp
next
  case (Cons ev before)
  from Cons.prems obtain msg where "Unmarshal_EventMessage (index ev ''message'') zeroEventMessage = Inr msg"
    by auto
  moreover have "decodeEvents (before @ event # after) (messages @ [msg]) = Inl err"
    using Cons.IH Cons.prems by simp
  ultimately show ?case by simp
qed

section \<open>The examples, evaluated\<close>

lemma Encode_stream_example:
  "Encode (messageValues \<lparr>Message.Stream = ''general'', Message.Topic = ''t1'', Emails = [],
                          Message.Content = ''hi''\<rparr>) = ''content=hi&subject=t1&to=general&type=stream''"
  by code_simp

lemma Encode_private_example:
  "Encode (messageValues \<lparr>Message.Stream = [], Message.Topic = [], Emails = [''a@x.com'', ''b@x.com''],
                          Message.Content = ''hi''\<rparr>) = ''content=hi&to=a%40x.com%2C+b%40x.com&type=private''"
  by code_simp

lemma Encode_no_content_example:
  "Encode (messageValues \<lparr>Message.Stream = ''general'', Message.Topic = ''t1'', Emails = [''a@x.com''],
                          Message.Content = []\<rparr>) = ''content=&to=a%40x.com&type=private''"
  by code_simp

lemma Encode_routed_example:
  "Encode (messageValues \<lparr>Message.Stream = [], Message.Topic = [], Emails = [''a@x.com''],
                          Message.Content = ''hi''\<rparr>) = ''content=hi&to=a%40x.com&type=private''"
  by code_simp

lemma getTestBot_parts:
  "constructRequest getTestBot = (\<lambda>method endpoint body. Inr (method, endpoint, body))"
  "client getTestBot = (\<lambda>r. (None, None))"
  "Bot.Email getTestBot = ''testbot@example.com''"
  by (simp_all add: getTestBot_def)

lemma recipients_privateEvent: "recipients getTestBot privateEvent = [''a@x.com'', ''b@x.com'']"
  by (simp add: recipients_def elems_def getTestBot_def privateEvent_def zeroEventMessage_def zeroUser_def)

lemma recipients_lonelyEvent: "recipients getTestBot lonelyEvent = []"
  by (simp add: recipients_def elems_def getTestBot_def lonelyEvent_def zeroEventMessage_def zeroUser_def)

lemma Message_stream_example:
  "Message getTestBot \<lparr>Message.Stream = ''general'', Message.Topic = ''t1'', Emails = [], Message.Content = ''hi''\<rparr> []
     = ((None, None), [(''POST'', ''messages'', ''content=hi&subject=t1&to=general&type=stream'')])"
  by (simp add: Message_def constructMessageRequest_def Encode_stream_example getTestBot_parts Do_def)

lemma Message_private_example:
  "Message getTestBot \<lparr>Message.Stream = [], Message.Topic = [], Emails = [''a@x.com'', ''b@x.com''], Message.Content = ''hi''\<rparr> []
     = ((None, None), [(''POST'', ''messages'', ''content=hi&to=a%40x.com%2C+b%40x.com&type=private'')])"
  by (simp add: Message_def PrivateMessage_def constructMessageRequest_def Encode_private_example getTestBot_parts Do_def)

lemma storeUser_oneUser:
  "storeUser oneUser (zeroUser, None) = (zeroUser\<lparr>User.Email := ''a@x.com'', User.ID := 7\<rparr>, None)"
  by code_simp

lemma Unmarshal_Users_oneUser:
  "Unmarshal_Users (Doc (JArray [oneUser])) (Some [zeroUser])
     = Inr (Some [zeroUser\<lparr>User.Email := ''a@x.com'', User.ID := 7\<rparr>])"
  by code_simp

lemma Unmarshal_goodMessage:
  "Unmarshal_EventMessage (Doc goodMessage) zeroEventMessage
     = Inr (zeroEventMessage\<lparr>DisplayRecipient := \<lparr>Users = None, DisplayRecipient.Topic = ''general''\<rparr>,
                               Subject := ''t1''\<rparr>)"
  by code_simp

lemma Unmarshal_badMessage:
  "Unmarshal_EventMessage (Doc badMessage) zeroEventMessage = Inl (UnmarshalTypeError ''string'' ''int'')"
  by code_simp

section \<open>Claims about request construction and sending\<close>

text \<open>
  C1. The claim: with two or more emails the form field \<open>to\<close> is exactly the emails joined
  by comma and space, whatever \<open>Stream\<close> holds. The code starts \<open>to\<close> at \<open>m.Stream\<close> and, with
  two or more emails, appends to it without clearing it first (with exactly one email it
  assigns). Evaluated at the message with Stream \<open>general\<close> and the emails \<open>a@x.com\<close> and
  \<open>b@x.com\<close>, the field is \<open>generala@x.com, b@x.com\<close>: the stream's name stays in front.
\<close>

theorem to_field_keeps_Stream:
  "Get (messageValues \<lparr>Message.Stream = ''general'', Message.Topic = ''t1'',
                       Emails = [''a@x.com'', ''b@x.com''], Message.Content = ''hi''\<rparr>) ''to''
     = Some ''generala@x.com, b@x.com''"
  by (simp add: messageValues_def Get_def)

text \<open>
  C7. For every message whose \<open>Content\<close> is empty, \<open>Message\<close> returns a nil response and
  the error \<open>content cannot be empty\<close>, and the list of requests handed to the transport is
  the one it started with: \<open>Do\<close> is not called, whatever the bot, its transport and the
  other fields of the message are.
\<close>

theorem Message_empty_Content:
  "Message.Content m = [] \<Longrightarrow> Message b m sent = ((None, Some (New ''content cannot be empty'')), sent)"
  by (simp add: Message_def fail_def)

theorem Message_empty_Content_witness:
  "Message.Content \<lparr>Message.Stream = ''general'', Message.Topic = ''t1'', Emails = [''a@x.com''], Message.Content = []\<rparr> = [] \<and>
   Message getTestBot \<lparr>Message.Stream = ''general'', Message.Topic = ''t1'', Emails = [''a@x.com''], Message.Content = []\<rparr> []
     = ((None, Some (New ''content cannot be empty'')), [])"
  using Message_empty_Content [of "\<lparr>Message.Stream = ''general'', Message.Topic = ''t1'', Emails = [''a@x.com''], Message.Content = []\<rparr>" getTestBot "[]"]
  by simp

text \<open>
  C8. For every message with at least one email and a non-empty \<open>Content\<close>, \<open>Message\<close>
  returns what \<open>PrivateMessage\<close> returns, whatever \<open>Stream\<close> and \<open>Topic\<close> hold, and that is the
  outcome of building the request and handing it to \<open>Do\<close>: the checks for an empty stream
  and an empty topic are not on this path, and their errors are not among its results.
\<close>

theorem Message_routes_private:
  "Emails m \<noteq> [] \<Longrightarrow> Message.Content m \<noteq> [] \<Longrightarrow>
     Message b m sent = PrivateMessage b m sent \<and>
     PrivateMessage b m sent =
       (case constructRequest b ''POST'' ''messages'' (Encode (messageValues m)) of
          Inl err \<Rightarrow> ((None, Some err), sent)
        | Inr req \<Rightarrow> (client b req, sent @ [req]))"
  by (simp add: Message_def PrivateMessage_unfold)

theorem Message_routes_private_witness:
  "Emails \<lparr>Message.Stream = [], Message.Topic = [], Emails = [''a@x.com''], Message.Content = ''hi''\<rparr> \<noteq> [] \<and>
   Message.Content \<lparr>Message.Stream = [], Message.Topic = [], Emails = [''a@x.com''], Message.Content = ''hi''\<rparr> \<noteq> [] \<and>
   Message getTestBot \<lparr>Message.Stream = [], Message.Topic = [], Emails = [''a@x.com''], Message.Content = ''hi''\<rparr> []
     = ((None, None), [(''POST'', ''messages'', ''content=hi&to=a%40x.com&type=private'')])"
  using Message_routes_private [where m = "\<lparr>Message.Stream = [], Message.Topic = [], Emails = [''a@x.com''], Message.Content = ''hi''\<rparr>" and b = getTestBot and sent = "[]"]
  by (simp add: Encode_routed_example getTestBot_parts)

text \<open>
  C10. Called directly on a message with at least one email and an empty \<open>Content\<close>,
  \<open>PrivateMessage\<close> checks nothing about the content: it builds the request, whose form
  field \<open>content\<close> is the empty string, and unless \<open>constructRequest\<close> itself fails it hands the
  request to \<open>Do\<close> and returns what \<open>Do\<close> returns.
\<close>

theorem PrivateMessage_no_Content_check:
  "Emails m \<noteq> [] \<Longrightarrow> Message.Content m = [] \<Longrightarrow>
     Get (messageValues m) ''content'' = Some [] \<and>
     PrivateMessage b m sent =
       (case constructRequest b ''POST'' ''messages'' (Encode (messageValues m)) of
          Inl err \<Rightarrow> ((None, Some err), sent)
        | Inr req \<Rightarrow> (client b req, sent @ [req]))"
  by (simp add: Get_content PrivateMessage_unfold)

theorem PrivateMessage_no_Content_check_witness:
  "Emails \<lparr>Message.Stream = ''general'', Message.Topic = ''t1'', Emails = [''a@x.com''], Message.Content = []\<rparr> \<noteq> [] \<and>
   Message.Content \<lparr>Message.Stream = ''general'', Message.Topic = ''t1'', Emails = [''a@x.com''], Message.Content = []\<rparr> = [] \<and>
   PrivateMessage getTestBot \<lparr>Message.Stream = ''general'', Message.Topic = ''t1'', Emails = [''a@x.com''], Message.Content = []\<rparr> []
     = ((None, None), [(''POST'', ''messages'', ''content=&to=a%40x.com&type=private'')])"
  using PrivateMessage_no_Content_check [where m = "\<lparr>Message.Stream = ''general'', Message.Topic = ''t1'', Emails = [''a@x.com''], Message.Content = []\<rparr>" and b = getTestBot and sent = "[]"]
  by (simp add: Encode_no_content_example getTestBot_parts)

section \<open>Claims about responding\<close>

text \<open>
  C3. \<open>Respond\<close> decides in this order. An empty reply text fails. Otherwise, a non-empty
  \<open>Subject\<close> sends, through \<open>Message\<close>, the stream message whose \<open>Stream\<close> is the event's
  \<open>DisplayRecipient.Topic\<close> and whose \<open>Topic\<close> is the \<open>Subject\<close>: its request has type
  \<open>stream\<close>, goes to that stream and has that subject. Otherwise, an empty
  \<open>DisplayRecipient.Topic\<close> takes the private path: the error of \<open>privateResponseList\<close>, or
  the message to the emails it found. Otherwise (no subject, but a stream's name) it fails
  with the error that the event is not understood, which carries the event.
\<close>

theorem Respond_classification:
  "(response = [] \<longrightarrow>
      Respond b e response sent = ((None, Some (New ''Message response cannot be blank'')), sent)) \<and>
   (response \<noteq> [] \<and> Subject e \<noteq> [] \<longrightarrow>
      Respond b e response sent =
        Message b \<lparr>Message.Stream = DisplayRecipient.Topic (DisplayRecipient e),
                   Message.Topic = Subject e, Emails = [], Message.Content = response\<rparr> sent \<and>
      Get (messageValues \<lparr>Message.Stream = DisplayRecipient.Topic (DisplayRecipient e),
                           Message.Topic = Subject e, Emails = [], Message.Content = response\<rparr>) ''type''
        = Some ''stream'' \<and>
      Get (messageValues \<lparr>Message.Stream = DisplayRecipient.Topic (DisplayRecipient e),
                           Message.Topic = Subject e, Emails = [], Message.Content = response\<rparr>) ''to''
        = Some (DisplayRecipient.Topic (DisplayRecipient e)) \<and>
      Get (messageValues \<lparr>Message.Stream = DisplayRecipient.Topic (DisplayRecipient e),
                           Message.Topic = Subject e, Emails = [], Message.Content = response\<rparr>) ''subject''
        = Some (Subject e)) \<and>
   (response \<noteq> [] \<and> Subject e = [] \<and> DisplayRecipient.Topic (DisplayRecipient e) = [] \<longrightarrow>
      Respond b e response sent =
        (case privateResponseList b e of
           Inl err \<Rightarrow> ((None, Some err), sent)
         | Inr emails \<Rightarrow>
             Message b \<lparr>Message.Stream = [], Message.Topic = [], Emails = emails,
                        Message.Content = response\<rparr> sent)) \<and>
   (response \<noteq> [] \<and> Subject e = [] \<and> DisplayRecipient.Topic (DisplayRecipient e) \<noteq> [] \<longrightarrow>
      Respond b e response sent =
        ((None, Some (Errorf (''EventMessage is not understood: %v'' @ [CHR 0x0A]) [e])), sent))"
  by (simp add: Respond_def fail_def Let_def Get_type Get_to_none Get_subject split: sum.split)

theorem Respond_classification_witness:
  "Respond getTestBot streamEvent [] [] = ((None, Some (New ''Message response cannot be blank'')), []) \<and>
   (''hi'' \<noteq> [] \<and> Subject streamEvent \<noteq> []) \<and>
   Respond getTestBot streamEvent ''hi'' []
     = ((None, None), [(''POST'', ''messages'', ''content=hi&subject=t1&to=general&type=stream'')]) \<and>
   (Subject privateEvent = [] \<and> DisplayRecipient.Topic (DisplayRecipient privateEvent) = []) \<and>
   Respond getTestBot privateEvent ''hi'' []
     = ((None, None), [(''POST'', ''messages'', ''content=hi&to=a%40x.com%2C+b%40x.com&type=private'')]) \<and>
   (Subject oddEvent = [] \<and> DisplayRecipient.Topic (DisplayRecipient oddEvent) \<noteq> []) \<and>
   Respond getTestBot oddEvent ''hi'' []
     = ((None, Some (Errorf (''EventMessage is not understood: %v'' @ [CHR 0x0A]) [oddEvent])), [])"
proof -
  have s: "Subject streamEvent = ''t1''" "DisplayRecipient.Topic (DisplayRecipient streamEvent) = ''general''"
    by (simp_all add: streamEvent_def zeroEventMessage_def)
  have p: "Subject privateEvent = []" "DisplayRecipient.Topic (DisplayRecipient privateEvent) = []"
    by (simp_all add: privateEvent_def zeroEventMessage_def)
  have pl: "privateResponseList getTestBot privateEvent = Inr [''a@x.com'', ''b@x.com'']"
    by (simp add: privateResponseList_recipients recipients_privateEvent)
  have od: "Subject oddEvent = []" "DisplayRecipient.Topic (DisplayRecipient oddEvent) = ''general''"
    by (simp_all add: oddEvent_def zeroEventMessage_def)
  show ?thesis
    using Respond_classification [where response = "[]" and b = getTestBot and e = streamEvent and sent = "[]"]
      Respond_classification [where response = "''hi''" and b = getTestBot and e = streamEvent and sent = "[]"]
      Respond_classification [where response = "''hi''" and b = getTestBot and e = privateEvent and sent = "[]"]
      Respond_classification [where response = "''hi''" and b = getTestBot and e = oddEvent and sent = "[]"]
    by (simp add: s p pl od Message_stream_example Message_private_example)
qed

text \<open>
  C4. On the private path (a reply text, no \<open>Subject\<close>, no \<open>DisplayRecipient.Topic\<close>) the
  recipients are the emails of the event's users other than the bot's own, in their order.
  With none, \<open>Respond\<close> returns the error that the event had no users and hands nothing
  to the transport. Otherwise it returns what \<open>PrivateMessage\<close> returns for the message to
  exactly these emails with the reply text as \<open>Content\<close>: the request has type \<open>private\<close>, its
  field \<open>to\<close> is the recipients joined by comma and space, and its content is the reply.
\<close>

theorem Respond_private_reply:
  assumes "response \<noteq> []" "Subject e = []" "DisplayRecipient.Topic (DisplayRecipient e) = []"
  shows "(recipients b e = [] \<longrightarrow>
            Respond b e response sent =
              ((None, Some (Errorf ''EventMessage had no Users within the DisplayRecipient'' [])), sent)) \<and>
         (recipients b e \<noteq> [] \<longrightarrow>
            Respond b e response sent =
              PrivateMessage b \<lparr>Message.Stream = [], Message.Topic = [], Emails = recipients b e,
                                 Message.Content = response\<rparr> sent \<and>
            PrivateMessage b \<lparr>Message.Stream = [], Message.Topic = [], Emails = recipients b e,
                               Message.Content = response\<rparr> sent =
              (case constructRequest b ''POST'' ''messages''
                      (Encode (messageValues \<lparr>Message.Stream = [], Message.Topic = [],
                                               Emails = recipients b e, Message.Content = response\<rparr>)) of
                 Inl err \<Rightarrow> ((None, Some err), sent)
               | Inr req \<Rightarrow> (client b req, sent @ [req])) \<and>
            Get (messageValues \<lparr>Message.Stream = [], Message.Topic = [], Emails = recipients b e,
                                 Message.Content = response\<rparr>) ''type'' = Some ''private'' \<and>
            Get (messageValues \<lparr>Message.Stream = [], Message.Topic = [], Emails = recipients b e,
                                 Message.Content = response\<rparr>) ''to'' = Some (commaSpaceJoined (recipients b e)) \<and>
            Get (messageValues \<lparr>Message.Stream = [], Message.Topic = [], Emails = recipients b e,
                                 Message.Content = response\<rparr>) ''content'' = Some response)"
proof (intro conjI impI)
  assume none: "recipients b e = []"
  show "Respond b e response sent =
          ((None, Some (Errorf ''EventMessage had no Users within the DisplayRecipient'' [])), sent)"
    using assms none by (simp add: Respond_def privateResponseList_recipients fail_def)
next
  assume some: "recipients b e \<noteq> []"
  let ?m = "\<lparr>Message.Stream = [], Message.Topic = [], Emails = recipients b e, Message.Content = response\<rparr>"
  have resp: "Respond b e response sent = Message b ?m sent"
    using assms some by (simp add: Respond_def privateResponseList_recipients)
  have route: "Message b ?m sent = PrivateMessage b ?m sent"
    using assms(1) some by (simp add: Message_def)
  show "Respond b e response sent = PrivateMessage b ?m sent"
    using resp route by simp
  show "PrivateMessage b ?m sent =
          (case constructRequest b ''POST'' ''messages'' (Encode (messageValues ?m)) of
             Inl err \<Rightarrow> ((None, Some err), sent)
           | Inr req \<Rightarrow> (client b req, sent @ [req]))"
    using some PrivateMessage_unfold [of ?m b sent] by simp
  show "Get (messageValues ?m) ''type'' = Some ''private''"
    using some by (simp add: Get_type)
  show "Get (messageValues ?m) ''to'' = Some (commaSpaceJoined (recipients b e))"
    using some Get_to_private [of ?m] by simp
  show "Get (messageValues ?m) ''content'' = Some response"
    by (simp add: Get_content)
qed

theorem Respond_private_reply_witness:
  "(''hi'' \<noteq> [] \<and> Subject privateEvent = [] \<and> DisplayRecipient.Topic (DisplayRecipient privateEvent) = [] \<and>
    recipients getTestBot privateEvent \<noteq> []) \<and>
   Respond getTestBot privateEvent ''hi'' []
     = ((None, None), [(''POST'', ''messages'', ''content=hi&to=a%40x.com%2C+b%40x.com&type=private'')]) \<and>
   (Subject lonelyEvent = [] \<and> DisplayRecipient.Topic (DisplayRecipient lonelyEvent) = [] \<and>
    recipients getTestBot lonelyEvent = []) \<and>
   Respond getTestBot lonelyEvent ''hi'' []
     = ((None, Some (Errorf ''EventMessage had no Users within the DisplayRecipient'' [])), [])"
proof -
  have p: "Subject privateEvent = []" "DisplayRecipient.Topic (DisplayRecipient privateEvent) = []"
    by (simp_all add: privateEvent_def zeroEventMessage_def)
  have l: "Subject lonelyEvent = []" "DisplayRecipient.Topic (DisplayRecipient lonelyEvent) = []"
    by (simp_all add: lonelyEvent_def zeroEventMessage_def)
  show ?thesis
    using Respond_private_reply [where response = "''hi''" and b = getTestBot and e = privateEvent and sent = "[]"]
      Respond_private_reply [where response = "''hi''" and b = getTestBot and e = lonelyEvent and sent = "[]"]
    by (simp add: p l getTestBot_parts recipients_privateEvent recipients_lonelyEvent Encode_private_example)
qed

section \<open>Claims about the decoder of DisplayRecipient\<close>

text \<open>
  C5. The decoder tries the bytes as a string first: if that succeeds it sets \<open>Topic\<close> and
  returns no error. Otherwise it tries them as a list of users: if that succeeds it sets
  \<open>Users\<close> and returns no error. If both fail the receiver stays as it was and the error
  returned is the one of the second attempt, the list's.
\<close>

theorem UnmarshalJSON_order:
  "(Unmarshal_string b [] = Inr topic \<longrightarrow>
      UnmarshalJSON d b = (d\<lparr>DisplayRecipient.Topic := topic\<rparr>, None)) \<and>
   (Unmarshal_string b [] = Inl stringErr \<and> Unmarshal_Users b (Some [zeroUser]) = Inr users \<longrightarrow>
      UnmarshalJSON d b = (d\<lparr>Users := users\<rparr>, None)) \<and>
   (Unmarshal_string b [] = Inl stringErr \<and> Unmarshal_Users b (Some [zeroUser]) = Inl listErr \<longrightarrow>
      UnmarshalJSON d b = (d, Some listErr))"
  by (simp add: UnmarshalJSON_def)

theorem UnmarshalJSON_order_witness:
  "Unmarshal_string (Doc (JString ''lunch'')) [] = Inr ''lunch'' \<and>
   UnmarshalJSON zeroDisplayRecipient (Doc (JString ''lunch''))
     = (zeroDisplayRecipient\<lparr>DisplayRecipient.Topic := ''lunch''\<rparr>, None) \<and>
   (Unmarshal_string (Doc (JArray [oneUser])) [] = Inl (UnmarshalTypeError ''array'' ''string'') \<and>
    Unmarshal_Users (Doc (JArray [oneUser])) (Some [zeroUser])
      = Inr (Some [zeroUser\<lparr>User.Email := ''a@x.com'', User.ID := 7\<rparr>])) \<and>
   UnmarshalJSON zeroDisplayRecipient (Doc (JArray [oneUser]))
     = (zeroDisplayRecipient\<lparr>Users := Some [zeroUser\<lparr>User.Email := ''a@x.com'', User.ID := 7\<rparr>]\<rparr>, None) \<and>
   (Unmarshal_string (Doc (JNumber ''5'')) [] = Inl (UnmarshalTypeError ''number'' ''string'') \<and>
    Unmarshal_Users (Doc (JNumber ''5'')) (Some [zeroUser])
      = Inl (UnmarshalTypeError ''number'' ''[]gozulipbot.User'')) \<and>
   UnmarshalJSON zeroDisplayRecipient (Doc (JNumber ''5''))
     = (zeroDisplayRecipient, Some (UnmarshalTypeError ''number'' ''[]gozulipbot.User''))"
proof -
  have s1: "Unmarshal_string (Doc (JString ''lunch'')) [] = Inr ''lunch''"
    by (simp add: Unmarshal_string_Doc)
  have s2: "Unmarshal_string (Doc (JArray [oneUser])) [] = Inl (UnmarshalTypeError ''array'' ''string'')"
    by (simp add: Unmarshal_string_Doc describe_def)
  have s3: "Unmarshal_string (Doc (JNumber ''5'')) [] = Inl (UnmarshalTypeError ''number'' ''string'')"
    by (simp add: Unmarshal_string_Doc describe_def)
  have u3: "Unmarshal_Users (Doc (JNumber ''5'')) (Some [zeroUser])
              = Inl (UnmarshalTypeError ''number'' ''[]gozulipbot.User'')"
    by (simp add: Unmarshal_Users_def checkValid_def storeUsers_def finish_def saveError_def describe_def)
  show ?thesis
    using UnmarshalJSON_order [where b = "Doc (JString ''lunch'')" and d = zeroDisplayRecipient
        and topic = "''lunch''"]
      UnmarshalJSON_order [where b = "Doc (JArray [oneUser])" and d = zeroDisplayRecipient
        and stringErr = "UnmarshalTypeError ''array'' ''string''"
        and users = "Some [zeroUser\<lparr>User.Email := ''a@x.com'', User.ID := 7\<rparr>]"]
      UnmarshalJSON_order [where b = "Doc (JNumber ''5'')" and d = zeroDisplayRecipient
        and stringErr = "UnmarshalTypeError ''number'' ''string''"
        and listErr = "UnmarshalTypeError ''number'' ''[]gozulipbot.User''"]
    by (simp add: s1 s2 s3 u3 Unmarshal_Users_oneUser)
qed

text \<open>
  C6. A decode assigns exactly one of the two fields. A JSON string sets \<open>Topic\<close> to the
  string and does not touch \<open>Users\<close>; an array whose elements decode as users without an
  error sets \<open>Users\<close> to the sequence of the users decoded, each into a zero value of its
  own, and does not touch \<open>Topic\<close>. So in a fresh \<open>DisplayRecipient\<close>, which is what
  \<open>ParseEventMessages\<close> decodes into, a string gives \<open>Topic\<close> equal to it with \<open>Users\<close> nil,
  and an array gives \<open>Users\<close> with \<open>Topic\<close> empty; for the empty array \<open>Users\<close> is the empty
  slice, which is not nil.
\<close>

theorem UnmarshalJSON_one_variant:
  "UnmarshalJSON d (Doc (JString s)) = (d\<lparr>DisplayRecipient.Topic := s\<rparr>, None) \<and>
   UnmarshalJSON zeroDisplayRecipient (Doc (JString s))
     = (\<lparr>Users = None, DisplayRecipient.Topic = s\<rparr>, None) \<and>
   ((\<forall>j \<in> set js. snd (storeUser j (zeroUser, None)) = None) \<longrightarrow>
      UnmarshalJSON d (Doc (JArray js))
        = (d\<lparr>Users := Some (map (\<lambda>j. fst (storeUser j (zeroUser, None))) js)\<rparr>, None) \<and>
      UnmarshalJSON zeroDisplayRecipient (Doc (JArray js))
        = (\<lparr>Users = Some (map (\<lambda>j. fst (storeUser j (zeroUser, None))) js),
            DisplayRecipient.Topic = []\<rparr>, None)) \<and>
   UnmarshalJSON zeroDisplayRecipient (Doc (JArray []))
     = (\<lparr>Users = Some [], DisplayRecipient.Topic = []\<rparr>, None)"
proof -
  have str: "UnmarshalJSON r (Doc (JString s)) = (r\<lparr>DisplayRecipient.Topic := s\<rparr>, None)" for r
    by (rule UnmarshalJSON_string)
  have arr: "UnmarshalJSON r (Doc (JArray js))
               = (r\<lparr>Users := Some (map (\<lambda>j. fst (storeUser j (zeroUser, None))) js)\<rparr>, None)"
    if "\<forall>j \<in> set js. snd (storeUser j (zeroUser, None)) = None" for r
    using that by (rule UnmarshalJSON_array)
  have nil: "UnmarshalJSON zeroDisplayRecipient (Doc (JArray []))
               = (zeroDisplayRecipient\<lparr>Users := Some []\<rparr>, None)"
    using UnmarshalJSON_array [of "[]" zeroDisplayRecipient] by simp
  show ?thesis
    using str [of d] str [of zeroDisplayRecipient] arr [of d] arr [of zeroDisplayRecipient] nil
    by (simp add: zeroDisplayRecipient_def)
qed

theorem UnmarshalJSON_one_variant_witness:
  "UnmarshalJSON zeroDisplayRecipient (Doc (JString ''lunch''))
     = (\<lparr>Users = None, DisplayRecipient.Topic = ''lunch''\<rparr>, None) \<and>
   snd (storeUser oneUser (zeroUser, None)) = None \<and>
   UnmarshalJSON zeroDisplayRecipient (Doc (JArray [oneUser]))
     = (\<lparr>Users = Some [zeroUser\<lparr>User.Email := ''a@x.com'', User.ID := 7\<rparr>],
         DisplayRecipient.Topic = []\<rparr>, None)"
  using UnmarshalJSON_one_variant [where s = "''lunch''" and js = "[oneUser]" and d = zeroDisplayRecipient]
  by (simp add: storeUser_oneUser zeroDisplayRecipient_def)

section \<open>Claims about parsing a batch of events\<close>

text \<open>
  C2, as amended. Where the top-level object maps \<open>events\<close> to the empty array (of two
  members with this key the later counts), \<open>ParseEventMessages\<close> returns the empty sequence
  and no error. Where the object has no member \<open>events\<close>, it returns the syntax error that
  \<open>json.Unmarshal\<close> gives for an input of length zero, and no sequence: \<open>rawResponse["events"]\<close>
  is then the nil \<open>RawMessage\<close>, and decoding it is an error.
\<close>

theorem ParseEventMessages_empty_or_absent:
  "(map_of (rev members) ''events'' = Some (JArray []) \<longrightarrow>
      ParseEventMessages (Doc (JObject members)) = Inr []) \<and>
   (''events'' \<notin> fst ` set members \<longrightarrow>
      ParseEventMessages (Doc (JObject members)) = Inl (SyntaxError ''unexpected end of JSON input''))"
proof (intro conjI impI)
  assume "map_of (rev members) ''events'' = Some (JArray [])"
  then show "ParseEventMessages (Doc (JObject members)) = Inr []"
    by (simp add: ParseEventMessages_def Unmarshal_RawMap_object index_def Unmarshal_RawMaps_empty_array)
next
  assume "''events'' \<notin> fst ` set members"
  then have "map_of (rev members) ''events'' = None"
    by (simp add: map_of_eq_None_iff)
  then show "ParseEventMessages (Doc (JObject members)) = Inl (SyntaxError ''unexpected end of JSON input'')"
    by (simp add: ParseEventMessages_def Unmarshal_RawMap_object index_def Unmarshal_RawMaps_Empty)
qed

theorem ParseEventMessages_empty_or_absent_witness:
  "map_of (rev [(''result'', JString ''success''), (''events'', JArray [])]) ''events'' = Some (JArray []) \<and>
   ParseEventMessages (Doc (JObject [(''result'', JString ''success''), (''events'', JArray [])])) = Inr [] \<and>
   ''events'' \<notin> fst ` set [(''result'', JString ''error''), (''msg'', JString ''Bad event queue id'')] \<and>
   ParseEventMessages (Doc (JObject [(''result'', JString ''error''), (''msg'', JString ''Bad event queue id'')]))
     = Inl (SyntaxError ''unexpected end of JSON input'')"
  using ParseEventMessages_empty_or_absent [where members = "[(''result'', JString ''success''), (''events'', JArray [])]"]
    ParseEventMessages_empty_or_absent [where members = "[(''result'', JString ''error''), (''msg'', JString ''Bad event queue id'')]"]
  by simp

text \<open>
  The claim as it was stated has \<open>ParseEventMessages\<close> return the empty sequence and no error
  also where the key \<open>events\<close> is absent. On the object with the single member \<open>result\<close> it
  returns an error.
\<close>

theorem ParseEventMessages_no_events_key:
  "ParseEventMessages (Doc (JObject [(''result'', JString ''success'')]))
     = Inl (SyntaxError ''unexpected end of JSON input'')"
  by (simp add: ParseEventMessages_def Unmarshal_RawMap_object index_def Unmarshal_RawMaps_Empty)

text \<open>
  C9. When the batch decodes down to its events and the \<open>message\<close> of one of them fails to
  decode as an \<open>EventMessage\<close> while those of all events before it decode,
  \<open>ParseEventMessages\<close> returns that error and no sequence: the messages decoded before
  are dropped, and the events after are not looked at.
\<close>

theorem ParseEventMessages_first_error:
  assumes "Unmarshal_RawMap rawEventResponse Map.empty = Inr rawResponse"
    and "Unmarshal_RawMaps (index rawResponse ''events'') [] = Inr (before @ event # after)"
    and "\<forall>ev \<in> set before. \<exists>msg. Unmarshal_EventMessage (index ev ''message'') zeroEventMessage = Inr msg"
    and "Unmarshal_EventMessage (index event ''message'') zeroEventMessage = Inl err"
  shows "ParseEventMessages rawEventResponse = Inl err"
  using assms(1,2) decodeEvents_first_error [OF assms(3,4)]
  by (simp add: ParseEventMessages_def)

theorem ParseEventMessages_first_error_witness:
  "Unmarshal_RawMap (Doc brokenBatch) Map.empty
     = Inr [''events'' \<mapsto> JArray [JObject [(''message'', goodMessage)],
                                 JObject [(''message'', badMessage)],
                                 JObject [(''message'', goodMessage)]]] \<and>
   Unmarshal_RawMaps (index [''events'' \<mapsto> JArray [JObject [(''message'', goodMessage)],
                                                 JObject [(''message'', badMessage)],
                                                 JObject [(''message'', goodMessage)]]] ''events'') []
     = Inr ([[''message'' \<mapsto> goodMessage]] @ [''message'' \<mapsto> badMessage] # [[''message'' \<mapsto> goodMessage]]) \<and>
   (\<exists>msg. Unmarshal_EventMessage (index [''message'' \<mapsto> goodMessage] ''message'') zeroEventMessage
            = Inr msg) \<and>
   Unmarshal_EventMessage (index [''message'' \<mapsto> badMessage] ''message'') zeroEventMessage
     = Inl (UnmarshalTypeError ''string'' ''int'') \<and>
   ParseEventMessages (Doc brokenBatch) = Inl (UnmarshalTypeError ''string'' ''int'')"
proof -
  have h1: "Unmarshal_RawMap (Doc brokenBatch) Map.empty
     = Inr [''events'' \<mapsto> JArray [JObject [(''message'', goodMessage)],
                                 JObject [(''message'', badMessage)],
                                 JObject [(''message'', goodMessage)]]]"
    by (simp add: brokenBatch_def Unmarshal_RawMap_object)
  have h2: "Unmarshal_RawMaps (index [''events'' \<mapsto> JArray [JObject [(''message'', goodMessage)],
                                                 JObject [(''message'', badMessage)],
                                                 JObject [(''message'', goodMessage)]]] ''events'') []
     = Inr ([[''message'' \<mapsto> goodMessage]] @ [''message'' \<mapsto> badMessage] # [[''message'' \<mapsto> goodMessage]])"
    by (simp add: index_def Unmarshal_RawMaps_def checkValid_def storeRawMaps_def storeRawMap_def
        finish_def fold_members)
  have h3: "\<forall>ev \<in> set [[''message'' \<mapsto> goodMessage]].
      \<exists>msg. Unmarshal_EventMessage (index ev ''message'') zeroEventMessage = Inr msg"
    by (simp add: index_def Unmarshal_goodMessage)
  have h4: "Unmarshal_EventMessage (index [''message'' \<mapsto> badMessage] ''message'') zeroEventMessage
     = Inl (UnmarshalTypeError ''string'' ''int'')"
    by (simp add: index_def Unmarshal_badMessage)
  show ?thesis
    using ParseEventMessages_first_error [OF h1 h2 h3 h4] h1 h2 h3 h4 by simp
qed

end
